theory Spec2Isabelle
  imports Complex_Main "HOL-Library.Sublist"
begin

section \<open>Data model of \<^verbatim>\<open>src/index.tsx\<close>\<close>

text \<open>
  The two interfaces of the source, \<^verbatim>\<open>Chunk\<close> and \<^verbatim>\<open>Message\<close>, as records. The string
  unions become datatypes. A JavaScript string is modelled as a \<open>string\<close> whose
  characters are the code units \<open>U+0000\<close> to \<open>U+00FF\<close>; text outside that range is
  outside the model. \<^verbatim>\<open>Date\<close> values and \<^verbatim>\<open>Date.now()\<close> are milliseconds as \<open>nat\<close>.
  The optional field \<^verbatim>\<open>isStreaming?: boolean\<close> is a \<open>bool option\<close>, \<open>None\<close> when the
  object literal does not set it.
\<close>

datatype source = claude | chatgpt | grok

datatype role = User | Assistant | System

record Chunk =
  c_id :: string
  c_source :: source
  c_title :: string
  c_content :: string
  c_timestamp :: string
  c_semanticScore :: rat
  c_lexicalScore :: rat
  c_tags :: "string list"

record Message =
  m_id :: string
  m_role :: role
  m_content :: string
  m_timestamp :: nat
  m_isStreaming :: "bool option"

fun source_str :: "source \<Rightarrow> string" where
  "source_str claude = ''claude''"
| "source_str chatgpt = ''chatgpt''"
| "source_str grok = ''grok''"

section \<open>String primitives\<close>

text \<open>
  \<^verbatim>\<open>String.prototype.toLowerCase\<close> and \<^verbatim>\<open>toUpperCase\<close> on the modelled code units: the
  letters \<open>A\<close> to \<open>Z\<close> and the upper-case letters of \<open>U+00C0\<close> to \<open>U+00DE\<close> (without the
  multiplication sign \<open>U+00D7\<close>) move by 32. \<^verbatim>\<open>toUpperCase\<close> is only ever applied to
  the three provenance names, so it is modelled on \<open>a\<close> to \<open>z\<close> alone.
\<close>

definition lower_char :: "char \<Rightarrow> char" where
  "lower_char c =
     (let n = (of_char c :: nat)
      in if (65 \<le> n \<and> n \<le> 90) \<or> (192 \<le> n \<and> n \<le> 222 \<and> n \<noteq> 215)
         then char_of (n + 32) else c)"

definition upper_char :: "char \<Rightarrow> char" where
  "upper_char c =
     (let n = (of_char c :: nat)
      in if 97 \<le> n \<and> n \<le> 122 then char_of (n - 32) else c)"

definition toLowerCase :: "string \<Rightarrow> string" where
  "toLowerCase s = map lower_char s"

definition toUpperCase :: "string \<Rightarrow> string" where
  "toUpperCase s = map upper_char s"

text \<open>\<^verbatim>\<open>hay.includes(needle)\<close>: the needle occurs in the haystack as a contiguous run.\<close>

definition includes_str :: "string \<Rightarrow> string \<Rightarrow> bool" where
  "includes_str hay needle = sublist needle hay"

text \<open>
  \<^verbatim>\<open>input.trim()\<close> is the empty string exactly when every code unit of the input is
  white space (tab, line feed, vertical tab, form feed, carriage return, space,
  no-break space).
\<close>

definition is_space :: "char \<Rightarrow> bool" where
  "is_space c = (of_char c \<in> {9, 10, 11, 12, 13, 32, 160 :: nat})"

definition trim_empty :: "string \<Rightarrow> bool" where
  "trim_empty s = list_all is_space s"

text \<open>The decimal rendering of a number, as \<^verbatim>\<open>Number.prototype.toString\<close> gives it.\<close>

fun digit_char :: "nat \<Rightarrow> char" where
  "digit_char n = char_of (48 + n mod 10)"

function toString :: "nat \<Rightarrow> string" where
  "toString n = (if n < 10 then [digit_char n] else toString (n div 10) @ [digit_char n])"
  by pat_completeness auto
termination
  by (relation "measure (\<lambda>n. n)") auto

declare toString.simps [simp del]

text \<open>
  \<^verbatim>\<open>Array.prototype.join\<close>: the elements in order with the separator between each
  two neighbours, the empty string for the empty array.
\<close>

fun join :: "string \<Rightarrow> string list \<Rightarrow> string" where
  "join sep [] = ''''"
| "join sep (x # xs) = foldl (\<lambda>acc y. acc @ sep @ y) x xs"

section \<open>The memory store\<close>

definition chk_1 :: Chunk where
  "chk_1 = \<lparr> c_id = ''chk_1'', c_source = claude,
     c_title = ''Project Alpha Architecture'',
     c_content = ''For the scalable backend of Project Alpha, we should stick to a microservices architecture using Go for high-throughput services and Python for the data science pipeline. The API gateway will handle authentication.'',
     c_timestamp = ''2024-10-15T10:30:00Z'',
     c_semanticScore = 92 / 100, c_lexicalScore = 88 / 100,
     c_tags = [''architecture'', ''backend'', ''go'', ''python''] \<rparr>"

definition chk_3 :: Chunk where
  "chk_3 = \<lparr> c_id = ''chk_3'', c_source = claude,
     c_title = ''Q4 Marketing Plan'',
     c_content = ''The Q4 marketing push will focus on 'Executive Intelligence'. We need to highlight the hybrid search capabilities and the secure on-premise deployment options. Budget allocation: 40% ads, 30% content, 30% events.'',
     c_timestamp = ''2024-12-01T09:00:00Z'',
     c_semanticScore = 78 / 100, c_lexicalScore = 95 / 100,
     c_tags = [''marketing'', ''Q4'', ''budget''] \<rparr>"

definition chk_6 :: Chunk where
  "chk_6 = \<lparr> c_id = ''chk_6'', c_source = claude,
     c_title = ''Team Sync Notes'',
     c_content = ''Action items: Sarah to finalize the Figma designs for the dashboard. Mike to optimize the Qdrant indexer params. Released v2.1 to staging.'',
     c_timestamp = ''2025-01-12T09:30:00Z'',
     c_semanticScore = 65 / 100, c_lexicalScore = 90 / 100,
     c_tags = [''meeting'', ''notes'', ''team''] \<rparr>"

definition MOCK_MEMORY :: "Chunk list" where
  "MOCK_MEMORY = [chk_1, chk_3, chk_6]"

section \<open>Relevance filter\<close>

text \<open>
  The predicate of the \<^verbatim>\<open>filter\<close> call in \<^verbatim>\<open>handleSend\<close>:
  \<^verbatim>\<open>c.content.toLowerCase().includes(userMsg.toLowerCase()) ||
   c.tags.some(t => userMsg.toLowerCase().includes(t))\<close>.
  The content and the directive are lower-cased; the tag is used as stored.
\<close>

definition relevant :: "string \<Rightarrow> Chunk \<Rightarrow> bool" where
  "relevant userMsg c =
     (includes_str (toLowerCase (c_content c)) (toLowerCase userMsg) \<or>
      list_ex (\<lambda>t. includes_str (toLowerCase userMsg) t) (c_tags c))"

definition select :: "string \<Rightarrow> Chunk list \<Rightarrow> Chunk list" where
  "select userMsg store = filter (relevant userMsg) store"

text \<open>
  The matching rule in the words of the specification: the body contains the
  directive as a case-insensitive substring, or a tag is a case-insensitive
  substring of the directive.
\<close>

definition spec_matches :: "string \<Rightarrow> Chunk \<Rightarrow> bool" where
  "spec_matches directive c =
     (includes_str (toLowerCase (c_content c)) (toLowerCase directive) \<or>
      list_ex (\<lambda>t. includes_str (toLowerCase directive) (toLowerCase t)) (c_tags c))"

section \<open>Context assembler\<close>

text \<open>
  The template literal \<^verbatim>\<open>`[REF: ${c.id} | ${c.source.toUpperCase()}]: ${c.content}`\<close>,
  the \<^verbatim>\<open>map(...).join("\n\n")\<close> over the selected chunks, and the prompt built from
  them: \<^verbatim>\<open>context || "No archival data found."\<close> takes the sentinel when the joined
  text is the empty string.
\<close>

definition render :: "Chunk \<Rightarrow> string" where
  "render c =
     ''[REF: '' @ c_id c @ '' | '' @ toUpperCase (source_str (c_source c)) @ '']: '' @ c_content c"

definition assemble :: "Chunk list \<Rightarrow> string" where
  "assemble relevantChunks = join ''\<newline>\<newline>'' (map render relevantChunks)"

definition prompt_context :: "Chunk list \<Rightarrow> string" where
  "prompt_context relevantChunks =
     (let context = assemble relevantChunks
      in if context = '''' then ''No archival data found.'' else context)"

definition systemPrompt :: "Chunk list \<Rightarrow> string" where
  "systemPrompt relevantChunks =
     ''You are E.A./SYSTEM. A hyper-efficient executive operating system.\<newline>        Context: ''
     @ prompt_context relevantChunks
     @ ''\<newline>        \<newline>        Directives:\<newline>        - Output strictly in formatted text.\<newline>        - Be concise, authoritative, and data-driven.\<newline>        - If referencing context, use [REF] markers.\<newline>        ''"

definition prompt :: "Chunk list \<Rightarrow> string \<Rightarrow> string" where
  "prompt relevantChunks userMsg =
     systemPrompt relevantChunks @ ''\<newline>\<newline>Query: '' @ userMsg"

section \<open>Conversation engine\<close>

text \<open>
  \<^verbatim>\<open>handleSend\<close> is an \<^verbatim>\<open>async\<close> function: it runs to its next \<^verbatim>\<open>await\<close>, suspends, and is
  resumed by a timer or by the generation client. JavaScript runs each such segment
  to completion, so the engine is a state machine whose steps are the segments of
  \<^verbatim>\<open>handleSend\<close> between two suspension points. The state holds the two React states
  \<^verbatim>\<open>history\<close> and \<^verbatim>\<open>isProcessing\<close>, the pending \<^verbatim>\<open>setTimeout\<close> callbacks with their due
  times, and the stream the pipeline is waiting on, if any. The functional updates
  \<^verbatim>\<open>setHistory(prev => ...)\<close> are applied in the order they are queued, so they are
  applied at once; \<^verbatim>\<open>isProcessing\<close> is read as last written. The third React state,
  \<^verbatim>\<open>input\<close>, is the text a submission carries. A timer fires at its due time, and
  \<^verbatim>\<open>Date.now()\<close> is then that time. An updater that throws while React renders
  unmounts the component: \<open>crashed\<close>.
\<close>

datatype cont =
    AfterScanDelay string "Chunk list"
  | AfterCountDelay string "Chunk list"
  | OfflineNotice

record stream =
  assistantMsgId :: string
  sent_prompt :: string
  fullText :: string

record engine =
  history :: "Message list"
  isProcessing :: bool
  timers :: "(nat \<times> cont) list"
  generating :: "stream option"
  crashed :: bool

text \<open>The initial value of \<^verbatim>\<open>useState<Message[]>\<close> in \<^verbatim>\<open>CommandView\<close>, mounted at \<open>t0\<close>.\<close>

definition initial :: "nat \<Rightarrow> engine" where
  "initial t0 =
     \<lparr> history = [\<lparr> m_id = ''init'', m_role = Assistant,
          m_content = ''E.A./SYSTEM v4.2 Connected.\<newline>Memory Core: Active (21,622 records)\<newline>\<newline>Awaiting directive.'',
          m_timestamp = t0, m_isStreaming = None \<rparr>],
       isProcessing = False, timers = [], generating = None, crashed = False \<rparr>"

text \<open>
  \<^verbatim>\<open>setTimeout\<close>: callbacks fire in the order of their due times, and in the order they
  were set when the due times are equal.
\<close>

fun setTimeout :: "nat \<times> cont \<Rightarrow> (nat \<times> cont) list \<Rightarrow> (nat \<times> cont) list" where
  "setTimeout e [] = [e]"
| "setTimeout e (x # xs) = (if fst e < fst x then e # x # xs else x # setTimeout e xs)"

text \<open>\<^verbatim>\<open>process.env.API_KEY\<close> is truthy: it is set and is not the empty string.\<close>

fun usable :: "string option \<Rightarrow> bool" where
  "usable None = False"
| "usable (Some k) = (k \<noteq> '''')"

definition user_message :: "string \<Rightarrow> string \<Rightarrow> nat \<Rightarrow> Message" where
  "user_message msgId userMsg now =
     \<lparr> m_id = msgId, m_role = User, m_content = userMsg, m_timestamp = now,
       m_isStreaming = None \<rparr>"

definition scanning_notice :: "string \<Rightarrow> nat \<Rightarrow> Message" where
  "scanning_notice msgId now =
     \<lparr> m_id = ''sys-'' @ msgId, m_role = System,
       m_content = ''Scanning neural memory banks...'', m_timestamp = now,
       m_isStreaming = None \<rparr>"

definition streaming_message :: "string \<Rightarrow> nat \<Rightarrow> Message" where
  "streaming_message aid now =
     \<lparr> m_id = aid, m_role = Assistant, m_content = '''', m_timestamp = now,
       m_isStreaming = Some True \<rparr>"

definition offline_notice :: "nat \<Rightarrow> Message" where
  "offline_notice now =
     \<lparr> m_id = ''err'', m_role = Assistant,
       m_content = ''SYSTEM_ALERT: Neural Link Offline (Missing API Key).'',
       m_timestamp = now, m_isStreaming = None \<rparr>"

definition error_notice :: "nat \<Rightarrow> Message" where
  "error_notice now =
     \<lparr> m_id = ''err'', m_role = Assistant,
       m_content = ''CRITICAL_ERROR: Processing matrix interruption.'',
       m_timestamp = now, m_isStreaming = None \<rparr>"

text \<open>
  The first segment of \<^verbatim>\<open>handleSend\<close>, from the guard to the first \<^verbatim>\<open>await\<close>: the user
  message and the scanning notice are appended, the store is filtered, and the
  function waits 600 ms.
\<close>

definition handleSend :: "nat \<Rightarrow> string \<Rightarrow> engine \<Rightarrow> engine" where
  "handleSend now input s =
     (if trim_empty input \<or> isProcessing s then s
      else
        let userMsg = input;
            msgId = toString now;
            relevantChunks = select userMsg MOCK_MEMORY
        in s\<lparr> history := history s @ [user_message msgId userMsg now, scanning_notice msgId now],
              isProcessing := True,
              timers := setTimeout (now + 600, AfterScanDelay userMsg relevantChunks) (timers s) \<rparr>)"

text \<open>
  The updater of the branch \<^verbatim>\<open>relevantChunks.length > 0\<close>. On an empty history
  \<^verbatim>\<open>prev[prev.length - 1]\<close> is \<^verbatim>\<open>undefined\<close> and reading its \<^verbatim>\<open>role\<close> throws: \<open>None\<close>.
\<close>

definition identified_update :: "nat \<Rightarrow> Message list \<Rightarrow> Message list option" where
  "identified_update n prev =
     (if prev = [] then None
      else if m_role (last prev) = System
        then Some (butlast prev @
               [(last prev)\<lparr> m_content := ''Identified '' @ toString n @ '' relevant memory fragments.'' \<rparr>])
        else Some prev)"

text \<open>The updater of the other branch: \<^verbatim>\<open>prev.filter(m => m.role !== 'system')\<close>.\<close>

definition drop_system :: "Message list \<Rightarrow> Message list" where
  "drop_system prev = filter (\<lambda>m. m_role m \<noteq> System) prev"

text \<open>
  Step 2 of \<^verbatim>\<open>handleSend\<close>, up to its next suspension. With a usable key the streaming
  assistant message is appended and the function waits for the generation client.
  Without one the offline notice is left to a 500 ms timer that nothing awaits, and
  the \<^verbatim>\<open>finally\<close> block runs at once.
\<close>

definition stream_response :: "string option \<Rightarrow> nat \<Rightarrow> string \<Rightarrow> Chunk list \<Rightarrow> engine \<Rightarrow> engine" where
  "stream_response api_key now userMsg relevantChunks s =
     (if usable api_key then
        let aid = ''ai-'' @ toString now
        in s\<lparr> history := history s @ [streaming_message aid now],
              generating := Some \<lparr> assistantMsgId = aid,
                                   sent_prompt = prompt relevantChunks userMsg,
                                   fullText = '''' \<rparr> \<rparr>
      else s\<lparr> timers := setTimeout (now + 500, OfflineNotice) (timers s),
              isProcessing := False \<rparr>)"

text \<open>A timer fires at \<open>now\<close> and resumes what waited for it.\<close>

fun resume :: "string option \<Rightarrow> nat \<Rightarrow> cont \<Rightarrow> engine \<Rightarrow> engine" where
  "resume api_key now (AfterScanDelay userMsg relevantChunks) s =
     (if length relevantChunks > 0 then
        (case identified_update (length relevantChunks) (history s) of
           None \<Rightarrow> s\<lparr> crashed := True \<rparr>
         | Some h \<Rightarrow>
             s\<lparr> history := h,
                timers := setTimeout (now + 400, AfterCountDelay userMsg relevantChunks) (timers s) \<rparr>)
      else stream_response api_key now userMsg relevantChunks
             (s\<lparr> history := drop_system (history s) \<rparr>))"
| "resume api_key now (AfterCountDelay userMsg relevantChunks) s =
     stream_response api_key now userMsg relevantChunks s"
| "resume api_key now OfflineNotice s =
     s\<lparr> history := history s @ [offline_notice now] \<rparr>"

text \<open>
  The generation client, seen from the engine: each iteration of the \<^verbatim>\<open>for await\<close>
  loop receives a chunk, the loop ends, or the client raises a fault (before the
  first chunk or between two), which the \<^verbatim>\<open>catch\<close> block handles. The \<^verbatim>\<open>finally\<close>
  block clears \<^verbatim>\<open>isProcessing\<close> on every exit.
\<close>

definition on_complete :: "engine \<Rightarrow> engine" where
  "on_complete s =
     (case generating s of
        None \<Rightarrow> s
      | Some g \<Rightarrow>
          s\<lparr> history := map (\<lambda>m. if m_id m = assistantMsgId g
                                   then m\<lparr> m_isStreaming := Some False \<rparr> else m) (history s),
             generating := None,
             isProcessing := False \<rparr>)"

definition on_fault :: "nat \<Rightarrow> engine \<Rightarrow> engine" where
  "on_fault now s =
     (case generating s of
        None \<Rightarrow> s
      | Some g \<Rightarrow>
          s\<lparr> history := history s @ [error_notice now],
             generating := None,
             isProcessing := False \<rparr>)"

text \<open>
  The chunks are the \<^verbatim>\<open>GenerateContentResponse\<close> objects of \<^verbatim>\<open>@google/genai\<close>, the package
  the source imports. Their \<^verbatim>\<open>text\<close> is an accessor: reading \<^verbatim>\<open>chunk.text\<close> gives the
  text of the chunk, a string (or \<^verbatim>\<open>undefined\<close> for a chunk without text). The loop body
  calls that value, \<^verbatim>\<open>chunk.text()\<close>, and neither is callable: the call throws a
  \<^verbatim>\<open>TypeError\<close>, whatever the text is.
\<close>

datatype error = TypeError

definition chunk_text :: "string \<Rightarrow> error + string" where
  "chunk_text increment = Inl TypeError"

text \<open>
  One iteration of the loop on a chunk that carries \<open>increment\<close>. The statements
  after the call append the text and rewrite the assistant message; the throw of the
  call leaves the \<^verbatim>\<open>try\<close> block, and the \<^verbatim>\<open>catch\<close> and \<^verbatim>\<open>finally\<close> blocks run as for a
  fault of the client.
\<close>

definition on_increment :: "nat \<Rightarrow> string \<Rightarrow> engine \<Rightarrow> engine" where
  "on_increment now increment s =
     (case generating s of
        None \<Rightarrow> s
      | Some g \<Rightarrow>
          (case chunk_text increment of
             Inl err \<Rightarrow> on_fault now s
           | Inr text \<Rightarrow>
               let full = fullText g @ text
               in s\<lparr> history := map (\<lambda>m. if m_id m = assistantMsgId g
                                           then m\<lparr> m_content := full \<rparr> else m) (history s),
                     generating := Some (g\<lparr> fullText := full \<rparr>) \<rparr>))"

text \<open>
  Time passes up to \<open>t\<close>: every timer due by then fires, in order, each at its due
  time. A fired timer may set another; the chain \<open>AfterScanDelay\<close>,
  \<open>AfterCountDelay\<close>, \<open>OfflineNotice\<close> is finite, which is the termination argument.
\<close>

fun rank :: "cont \<Rightarrow> nat" where
  "rank (AfterScanDelay u cs) = 3"
| "rank (AfterCountDelay u cs) = 2"
| "rank OfflineNotice = 1"

definition pending_rank :: "(nat \<times> cont) list \<Rightarrow> nat" where
  "pending_rank ts = sum_list (map (\<lambda>e. rank (snd e)) ts)"

lemma pending_rank_setTimeout:
  "pending_rank (setTimeout e ts) = rank (snd e) + pending_rank ts"
  by (induction ts) (simp_all add: pending_rank_def)

lemma pending_rank_resume:
  "pending_rank (timers (resume api_key now k s)) < rank k + pending_rank (timers s)"
  by (cases k)
     (simp_all add: stream_response_def pending_rank_setTimeout Let_def split: option.splits)

function advance :: "string option \<Rightarrow> nat \<Rightarrow> engine \<Rightarrow> engine" where
  "advance api_key t s =
     (case timers s of
        [] \<Rightarrow> s
      | e # rest \<Rightarrow>
          if fst e \<le> t \<and> \<not> crashed s
          then advance api_key t (resume api_key (fst e) (snd e) (s\<lparr> timers := rest \<rparr>))
          else s)"
  by pat_completeness auto
termination
proof (relation "measure (\<lambda>(api_key, t, s). pending_rank (timers s))")
  show "wf (measure (\<lambda>(api_key, t, s). pending_rank (timers s)))"
    by simp
next
  fix api_key :: "string option" and t :: nat and s :: engine
    and e :: "nat \<times> cont" and rest :: "(nat \<times> cont) list"
  assume ts: "timers s = e # rest"
  have "pending_rank (timers (resume api_key (fst e) (snd e) (s\<lparr> timers := rest \<rparr>)))
          < rank (snd e) + pending_rank rest"
    using pending_rank_resume [of api_key "fst e" "snd e" "s\<lparr> timers := rest \<rparr>"] by simp
  then show "((api_key, t, resume api_key (fst e) (snd e) (s\<lparr> timers := rest \<rparr>)), (api_key, t, s))
               \<in> measure (\<lambda>(api_key, t, s). pending_rank (timers s))"
    using ts by (simp add: pending_rank_def)
qed

declare advance.simps [simp del]

text \<open>
  What reaches the engine from outside: the user submits the input field, or the
  generation client delivers a chunk that carries an increment of text, ends the
  stream, or raises a fault. A schedule lists these events with their times, in
  order of time; the timers due by an event's time fire before it is handled.
\<close>

datatype event = Submit string | Increment string | Complete | Fault

fun handle :: "nat \<Rightarrow> event \<Rightarrow> engine \<Rightarrow> engine" where
  "handle now (Submit input) s = handleSend now input s"
| "handle now (Increment increment) s = on_increment now increment s"
| "handle now Complete s = on_complete s"
| "handle now Fault s = on_fault now s"

definition step :: "string option \<Rightarrow> engine \<Rightarrow> nat \<times> event \<Rightarrow> engine" where
  "step api_key s te =
     (let s' = advance api_key (fst te) s
      in if crashed s' then s' else handle (fst te) (snd te) s')"

definition run :: "string option \<Rightarrow> engine \<Rightarrow> (nat \<times> event) list \<Rightarrow> engine" where
  "run api_key s schedule = foldl (step api_key) s schedule"

section \<open>The assembly format in the words of the specification\<close>

text \<open>
  Each fragment is one block \<open>[REF: <id> | <PROVENANCE>]: <body>\<close> with the provenance
  in capitals; the blocks are joined by a blank line in the order received; the
  empty sequence gives the sentinel.
\<close>

fun provenance_label :: "source \<Rightarrow> string" where
  "provenance_label claude = ''CLAUDE''"
| "provenance_label chatgpt = ''CHATGPT''"
| "provenance_label grok = ''GROK''"

definition spec_block :: "Chunk \<Rightarrow> string" where
  "spec_block c =
     ''[REF: '' @ c_id c @ '' | '' @ provenance_label (c_source c) @ '']: '' @ c_content c"

fun spec_context :: "Chunk list \<Rightarrow> string" where
  "spec_context [] = ''No archival data found.''"
| "spec_context [c] = spec_block c"
| "spec_context (c # c' # cs) = spec_block c @ ''\<newline>\<newline>'' @ spec_context (c' # cs)"

section \<open>Evaluation of the primitives on the inputs of the scenarios\<close>

lemma select_scenarios:
  "select ''what's our architecture plan'' MOCK_MEMORY = [chk_1]"
  "select ''unrelated query xyz'' MOCK_MEMORY = []"
  "select ''status report'' MOCK_MEMORY = []"
  "select ''hello'' MOCK_MEMORY = []"
  by code_simp+

lemma toString_scenarios:
  "toString (Suc 0) = ''1''"
  "toString 1000 = ''1000''"
  "toString 1600 = ''1600''"
  "toString 1700 = ''1700''"
  "toString 2000 = ''2000''"
  "toString 3000 = ''3000''"
  by code_simp+

lemma trim_empty_scenarios:
  "\<not> trim_empty ''what's our architecture plan''"
  "\<not> trim_empty ''unrelated query xyz''"
  "\<not> trim_empty ''status report''"
  "\<not> trim_empty ''hello''"
  by code_simp+

lemmas scenario_evals = select_scenarios toString_scenarios trim_empty_scenarios

lemmas pipeline_defs =
  handleSend_def stream_response_def identified_update_def Let_def butlast_append

lemmas engine_defs =
  run_def step_def initial_def advance.simps pipeline_defs drop_system_def
  on_increment_def chunk_text_def on_complete_def on_fault_def
  user_message_def scanning_notice_def streaming_message_def offline_notice_def
  error_notice_def

section \<open>The context assembler against its specification\<close>

lemma foldl_join_step:
  "foldl (\<lambda>acc y. acc @ sep @ y) (p @ a) ys = p @ foldl (\<lambda>acc y. acc @ sep @ y) a ys"
  by (induction ys arbitrary: a) simp_all

lemma join_Cons_Cons: "join sep (x # y # ys) = x @ sep @ join sep (y # ys)"
  using foldl_join_step [of sep x "sep @ y" ys]
  by simp (metis append_assoc foldl_join_step)

lemma toUpperCase_source_str:
  "toUpperCase (source_str claude) = provenance_label claude"
  "toUpperCase (source_str chatgpt) = provenance_label chatgpt"
  "toUpperCase (source_str grok) = provenance_label grok"
  by code_simp+

lemma toUpperCase_source: "toUpperCase (source_str src) = provenance_label src"
  by (cases src) (simp_all only: toUpperCase_source_str)

lemma render_spec_block: "render c = spec_block c"
  by (simp add: render_def spec_block_def toUpperCase_source)

lemma assemble_Cons: "assemble (c # cs) = spec_context (c # cs)"
proof (induction cs arbitrary: c)
  case Nil
  then show ?case by (simp add: assemble_def render_spec_block)
next
  case (Cons c' cs)
  have "assemble (c # c' # cs) = render c @ ''\<newline>\<newline>'' @ assemble (c' # cs)"
    by (simp only: assemble_def list.map join_Cons_Cons)
  then show ?case using Cons.IH [of c'] by (simp add: render_spec_block)
qed

lemma spec_context_Cons_nonempty: "spec_context (c # cs) \<noteq> ''''"
  by (cases cs) (simp_all add: spec_block_def)

section \<open>The claims\<close>

text \<open>
  Claim C1 (system-notice lifecycle), as stated: whether or not the scan selects a
  fragment, no system-notice message remains in the history once the scan has
  resolved. Scenario A refutes it: the directive selects \<open>chk_1\<close>, and the notice is
  still the third message of the history after every timer has fired and the
  pipeline has ended, be it in the \<^verbatim>\<open>catch\<close> block on the first chunk or at the end of
  a stream without chunks.
\<close>

theorem notice_persists_after_count:
  "map m_role (history (advance (Some ''k'') 5000 (run (Some ''k'') (initial 0)
      [(1000, Submit ''what's our architecture plan''), (2100, Increment ''Sys''),
       (2200, Increment ''tem optimal.''), (2300, Complete)])))
     = [Assistant, User, System, Assistant, Assistant]
   \<and> map m_id (history (advance (Some ''k'') 5000 (run (Some ''k'') (initial 0)
      [(1000, Submit ''what's our architecture plan''), (2100, Increment ''Sys''),
       (2200, Increment ''tem optimal.''), (2300, Complete)])))
     = [''init'', ''1000'', ''sys-1000'', ''ai-2000'', ''err'']
   \<and> map m_role (history (advance (Some ''k'') 5000 (run (Some ''k'') (initial 0)
      [(1000, Submit ''what's our architecture plan''), (2300, Complete)])))
     = [Assistant, User, System, Assistant]
   \<and> map m_id (history (advance (Some ''k'') 5000 (run (Some ''k'') (initial 0)
      [(1000, Submit ''what's our architecture plan''), (2300, Complete)])))
     = [''init'', ''1000'', ''sys-1000'', ''ai-2000'']
   \<and> isProcessing (advance (Some ''k'') 5000 (run (Some ''k'') (initial 0)
      [(1000, Submit ''what's our architecture plan''), (2300, Complete)])) = False"
  by (simp add: engine_defs scenario_evals)

text \<open>
  Claim C1, amended: an idle engine accepts a directive at \<open>t\<close>. Until the 600 ms
  delay ends the history is the old one followed by the user message and the
  unchanged scanning notice. If the scan selected at least one fragment, then from
  \<open>t + 600\<close> on the notice reports the count, in its place right after the user
  message, and it is not removed afterwards. If the scan selected none, then from
  \<open>t + 600\<close> on the history holds no system message at all.
\<close>

theorem notice_lifecycle:
  assumes "\<not> isProcessing s" and "timers s = []" and "\<not> crashed s"
    and "\<not> trim_empty d" and "T0 < t + 600" and "t + 600 \<le> T"
  shows "history (advance api_key T0 (handleSend t d s))
           = history s @ [user_message (toString t) d t, scanning_notice (toString t) t]
       \<and> (select d MOCK_MEMORY \<noteq> [] \<longrightarrow>
            take (length (history s) + 2) (history (advance api_key T (handleSend t d s)))
              = history s @ [user_message (toString t) d t,
                  (scanning_notice (toString t) t)
                    \<lparr> m_content := ''Identified '' @ toString (length (select d MOCK_MEMORY))
                                      @ '' relevant memory fragments.'' \<rparr>])
       \<and> (select d MOCK_MEMORY = [] \<longrightarrow>
            System \<notin> m_role ` set (history (advance api_key T (handleSend t d s))))"
proof (intro conjI impI)
  show "history (advance api_key T0 (handleSend t d s))
          = history s @ [user_message (toString t) d t, scanning_notice (toString t) t]"
    using assms by (simp add: pipeline_defs advance.simps)
next
  assume found: "select d MOCK_MEMORY \<noteq> []"
  show "take (length (history s) + 2) (history (advance api_key T (handleSend t d s)))
              = history s @ [user_message (toString t) d t,
                  (scanning_notice (toString t) t)
                    \<lparr> m_content := ''Identified '' @ toString (length (select d MOCK_MEMORY))
                                      @ '' relevant memory fragments.'' \<rparr>]"
  proof (cases "t + 1000 \<le> T")
    case False
    with assms found show ?thesis
      by (simp add: pipeline_defs advance.simps scanning_notice_def)
  next
    case True
    show ?thesis
    proof (cases "usable api_key")
      case True
      with assms found \<open>t + 1000 \<le> T\<close> show ?thesis
        by (simp add: pipeline_defs advance.simps scanning_notice_def)
    next
      case False
      with assms found \<open>t + 1000 \<le> T\<close> show ?thesis
        by (cases "t + 1500 \<le> T")
           (simp_all add: pipeline_defs advance.simps scanning_notice_def)
    qed
  qed
next
  assume zero: "select d MOCK_MEMORY = []"
  show "System \<notin> m_role ` set (history (advance api_key T (handleSend t d s)))"
  proof (cases "usable api_key")
    case True
    with assms zero show ?thesis
      by (auto simp add: pipeline_defs advance.simps drop_system_def user_message_def
            streaming_message_def)
  next
    case False
    with assms zero show ?thesis
      by (cases "t + 1100 \<le> T")
         (auto simp add: pipeline_defs advance.simps drop_system_def user_message_def
            offline_notice_def)
  qed
qed

text \<open>
  Scenarios A and B as instances of the amended claim C1: the notice of Scenario A
  reads \<open>Identified 1 relevant memory fragments.\<close> and stays; Scenario B leaves no
  system message.
\<close>

theorem notice_lifecycle_witness:
  "\<not> isProcessing (initial 0) \<and> timers (initial 0) = [] \<and> \<not> crashed (initial 0)
   \<and> \<not> trim_empty ''what's our architecture plan'' \<and> \<not> trim_empty ''unrelated query xyz''
   \<and> (1200 :: nat) < 1000 + 600 \<and> (1000 :: nat) + 600 \<le> 5000
   \<and> select ''what's our architecture plan'' MOCK_MEMORY \<noteq> []
   \<and> select ''unrelated query xyz'' MOCK_MEMORY = []
   \<and> history (advance (Some ''k'') 1200
        (handleSend 1000 ''what's our architecture plan'' (initial 0)))
       = history (initial 0) @
         [user_message ''1000'' ''what's our architecture plan'' 1000,
          scanning_notice ''1000'' 1000]
   \<and> take (length (history (initial 0)) + 2) (history (advance (Some ''k'') 5000
        (handleSend 1000 ''what's our architecture plan'' (initial 0))))
       = history (initial 0) @
         [user_message ''1000'' ''what's our architecture plan'' 1000,
          \<lparr> m_id = ''sys-1000'', m_role = System,
            m_content = ''Identified 1 relevant memory fragments.'',
            m_timestamp = 1000, m_isStreaming = None \<rparr>]
   \<and> System \<notin> m_role ` set (history (advance None 5000
        (handleSend 1000 ''unrelated query xyz'' (initial 0))))"
  using
    notice_lifecycle [where s = "initial 0" and d = "''what's our architecture plan''"
      and t = 1000 and ?T0.0 = 1200 and T = 5000 and api_key = "Some ''k''"]
    notice_lifecycle [where s = "initial 0" and d = "''unrelated query xyz''"
      and t = 1000 and ?T0.0 = 1200 and T = 5000 and api_key = None]
  by (simp add: scenario_evals initial_def scanning_notice_def)

text \<open>
  Claim C2 (fault handling during generation): after a fault of the generation
  client the error notice is appended and no message is left with its streaming
  flag set. On the code the \<^verbatim>\<open>catch\<close> block appends the error notice, and the assistant
  message keeps \<^verbatim>\<open>isStreaming: true\<close>, which only the normal end of the loop clears.
  That is so when the client raises the fault before any chunk, and in Scenario E,
  where a chunk comes first: there the \<^verbatim>\<open>catch\<close> block already runs on that chunk.
\<close>

theorem fault_leaves_streaming_flag:
  "map m_isStreaming (history (run (Some ''k'') (initial 0)
      [(1000, Submit ''status report''), (2200, Fault)]))
     = [None, None, Some True, None]
   \<and> map m_content (history (run (Some ''k'') (initial 0)
      [(1000, Submit ''status report''), (2200, Fault)]))
     = [''E.A./SYSTEM v4.2 Connected.\<newline>Memory Core: Active (21,622 records)\<newline>\<newline>Awaiting directive.'',
        ''status report'', '''', ''CRITICAL_ERROR: Processing matrix interruption.'']
   \<and> isProcessing (run (Some ''k'') (initial 0)
      [(1000, Submit ''status report''), (2200, Fault)]) = False
   \<and> map m_isStreaming (history (run (Some ''k'') (initial 0)
      [(1000, Submit ''status report''), (2100, Increment ''Sys''), (2200, Fault)]))
     = [None, None, Some True, None]
   \<and> map m_content (history (run (Some ''k'') (initial 0)
      [(1000, Submit ''status report''), (2100, Increment ''Sys''), (2200, Fault)]))
     = [''E.A./SYSTEM v4.2 Connected.\<newline>Memory Core: Active (21,622 records)\<newline>\<newline>Awaiting directive.'',
        ''status report'', '''', ''CRITICAL_ERROR: Processing matrix interruption.'']
   \<and> isProcessing (run (Some ''k'') (initial 0)
      [(1000, Submit ''status report''), (2100, Increment ''Sys''), (2200, Fault)]) = False"
  by (simp add: engine_defs scenario_evals)

text \<open>
  Claim C3 (relevance filter contract): the filter selects exactly the fragments
  whose body contains the directive, or one of whose tags is contained in the
  directive, both without regard to case. The code lower-cases the directive but not
  the tag, so the stored tag \<open>Q4\<close> can never be found: for the directive
  \<open>Q4 plans\<close> the rule of the specification selects \<open>chk_3\<close> and the code selects
  nothing.
\<close>

theorem select_misses_uppercase_tag:
  "spec_matches ''Q4 plans'' chk_3 \<and> select ''Q4 plans'' MOCK_MEMORY = []"
  by code_simp

text \<open>
  Claim C4 (streaming accumulation and finalization): after each increment the body
  of the streaming assistant message is the concatenation of the increments received
  so far, and when the sequence completes the body is the concatenation of all of
  them and the streaming flag is false. Scenario D on the code: the client yields
  \<open>Sys\<close> and \<open>tem optimal.\<close> and completes. The first iteration of the loop calls
  \<^verbatim>\<open>chunk.text()\<close>, which throws; the \<^verbatim>\<open>catch\<close> block appends the error notice, the body
  of the assistant message stays empty and its streaming flag stays set. Only a
  stream without any chunk reaches the end of the loop, with the empty body and the
  flag false.
\<close>

theorem first_increment_takes_catch_path:
  "map m_content (history (run (Some ''k'') (initial 0)
      [(1000, Submit ''status report''), (1700, Increment ''Sys''),
       (2200, Increment ''tem optimal.''), (2300, Complete)]))
     = [''E.A./SYSTEM v4.2 Connected.\<newline>Memory Core: Active (21,622 records)\<newline>\<newline>Awaiting directive.'',
        ''status report'', '''', ''CRITICAL_ERROR: Processing matrix interruption.'']
   \<and> map m_isStreaming (history (run (Some ''k'') (initial 0)
      [(1000, Submit ''status report''), (1700, Increment ''Sys''),
       (2200, Increment ''tem optimal.''), (2300, Complete)]))
     = [None, None, Some True, None]
   \<and> map m_timestamp (history (run (Some ''k'') (initial 0)
      [(1000, Submit ''status report''), (1700, Increment ''Sys''),
       (2200, Increment ''tem optimal.''), (2300, Complete)]))
     = [0, 1000, 1600, 1700]
   \<and> map m_content (history (run (Some ''k'') (initial 0)
      [(1000, Submit ''status report''), (2300, Complete)]))
     = [''E.A./SYSTEM v4.2 Connected.\<newline>Memory Core: Active (21,622 records)\<newline>\<newline>Awaiting directive.'',
        ''status report'', '''']
   \<and> map m_isStreaming (history (run (Some ''k'') (initial 0)
      [(1000, Submit ''status report''), (2300, Complete)]))
     = [None, None, Some False]"
  by (simp add: engine_defs scenario_evals)

text \<open>
  Claim C5 (offline fallback path), as stated: an empty assistant message is
  replaced by the offline notice with the streaming flag false, and once the
  pipeline has resolved the last message is that notice. Scenario C refutes it.
  Without a key no assistant message is appended at any step. At 600 ms after the
  directive \<^verbatim>\<open>handleSend\<close> has returned, \<^verbatim>\<open>isProcessing\<close> is false, and the last message
  is the user message; the notice follows 500 ms later, from a timer, with no
  streaming flag.
\<close>

theorem offline_notice_is_appended_later:
  "map m_id (history (run None (initial 0) [(1000, Submit ''status report'')]))
     = [''init'', ''1000'', ''sys-1000'']
   \<and> map m_id (history (advance None 1600 (run None (initial 0)
        [(1000, Submit ''status report'')])))
     = [''init'', ''1000'']
   \<and> isProcessing (advance None 1600 (run None (initial 0)
        [(1000, Submit ''status report'')])) = False
   \<and> map m_id (history (advance None 2100 (run None (initial 0)
        [(1000, Submit ''status report'')])))
     = [''init'', ''1000'', ''err'']
   \<and> map m_isStreaming (history (advance None 2100 (run None (initial 0)
        [(1000, Submit ''status report'')])))
     = [None, None, None]"
  by (simp add: engine_defs scenario_evals)

text \<open>
  Claim C5, amended: an idle engine without a usable key accepts a directive at \<open>t\<close>
  and no other directive follows. At every time \<open>T'\<close> no stream is open, and the only
  assistant message the pipeline has added is the fixed offline notice, once its
  timer has fired: 1100 ms after the directive when the scan selected nothing,
  1500 ms otherwise. From then on the history is what the scan phase left, followed
  by that notice, which is the last message and has no streaming flag; the error
  notice is not appended.
\<close>

theorem offline_fallback:
  assumes "\<not> isProcessing s" and "timers s = []" and "\<not> crashed s"
    and "\<not> trim_empty d" and "\<not> usable api_key"
    and "t + (if select d MOCK_MEMORY = [] then 1100 else 1500) \<le> T"
  shows "history (advance api_key T (handleSend t d s))
           = (if select d MOCK_MEMORY = []
              then drop_system (history s) @ [user_message (toString t) d t,
                     offline_notice (t + 1100)]
              else history s @ [user_message (toString t) d t,
                     (scanning_notice (toString t) t)
                       \<lparr> m_content := ''Identified '' @ toString (length (select d MOCK_MEMORY))
                                         @ '' relevant memory fragments.'' \<rparr>,
                     offline_notice (t + 1500)])
         \<and> last (history (advance api_key T (handleSend t d s)))
             = offline_notice (t + (if select d MOCK_MEMORY = [] then 1100 else 1500))
         \<and> m_isStreaming (last (history (advance api_key T (handleSend t d s)))) = None
         \<and> \<not> isProcessing (advance api_key T (handleSend t d s))
         \<and> generating (advance api_key T' (handleSend t d s)) = generating s
         \<and> filter (\<lambda>m. m_role m = Assistant) (history (advance api_key T' (handleSend t d s)))
             = filter (\<lambda>m. m_role m = Assistant) (history s)
               @ (if t + (if select d MOCK_MEMORY = [] then 1100 else 1500) \<le> T'
                  then [offline_notice (t + (if select d MOCK_MEMORY = [] then 1100 else 1500))]
                  else [])"
proof -
  have assistant_kept:
    "(\<lambda>m. m_role m \<noteq> System \<and> m_role m = Assistant) = (\<lambda>m. m_role m = Assistant)"
    by auto
  have final: "history (advance api_key T (handleSend t d s))
           = (if select d MOCK_MEMORY = []
              then drop_system (history s) @ [user_message (toString t) d t,
                     offline_notice (t + 1100)]
              else history s @ [user_message (toString t) d t,
                     (scanning_notice (toString t) t)
                       \<lparr> m_content := ''Identified '' @ toString (length (select d MOCK_MEMORY))
                                         @ '' relevant memory fragments.'' \<rparr>,
                     offline_notice (t + 1500)])"
    "\<not> isProcessing (advance api_key T (handleSend t d s))"
    using assms
    by (simp_all add: pipeline_defs advance.simps scanning_notice_def drop_system_def
          user_message_def offline_notice_def split: if_split_asm)
  have before: "generating (advance api_key T' (handleSend t d s)) = generating s
      \<and> filter (\<lambda>m. m_role m = Assistant) (history (advance api_key T' (handleSend t d s)))
           = filter (\<lambda>m. m_role m = Assistant) (history s)"
    if "T' < t + 600"
    using assms(1-5) that
    by (simp add: pipeline_defs advance.simps scanning_notice_def user_message_def)
  have found: "generating (advance api_key T' (handleSend t d s)) = generating s
      \<and> filter (\<lambda>m. m_role m = Assistant) (history (advance api_key T' (handleSend t d s)))
           = filter (\<lambda>m. m_role m = Assistant) (history s)
             @ (if t + 1500 \<le> T' then [offline_notice (t + 1500)] else [])"
    if "t + 600 \<le> T'" and "select d MOCK_MEMORY \<noteq> []"
  proof (cases "t + 1000 \<le> T'")
    case False
    with assms(1-5) that show ?thesis
      by (simp add: pipeline_defs advance.simps scanning_notice_def user_message_def)
  next
    case True
    with assms(1-5) that show ?thesis
      by (cases "t + 1500 \<le> T'")
         (simp_all add: pipeline_defs advance.simps scanning_notice_def user_message_def
            offline_notice_def)
  qed
  have zero: "generating (advance api_key T' (handleSend t d s)) = generating s
      \<and> filter (\<lambda>m. m_role m = Assistant) (history (advance api_key T' (handleSend t d s)))
           = filter (\<lambda>m. m_role m = Assistant) (history s)
             @ (if t + 1100 \<le> T' then [offline_notice (t + 1100)] else [])"
    if "t + 600 \<le> T'" and "select d MOCK_MEMORY = []"
    using assms(1-5) that
    by (cases "t + 1100 \<le> T'")
       (simp_all add: pipeline_defs advance.simps scanning_notice_def user_message_def
          offline_notice_def drop_system_def assistant_kept)
  have every: "generating (advance api_key T' (handleSend t d s)) = generating s
      \<and> filter (\<lambda>m. m_role m = Assistant) (history (advance api_key T' (handleSend t d s)))
           = filter (\<lambda>m. m_role m = Assistant) (history s)
             @ (if t + (if select d MOCK_MEMORY = [] then 1100 else 1500) \<le> T'
                then [offline_notice (t + (if select d MOCK_MEMORY = [] then 1100 else 1500))]
                else [])"
  proof (cases "T' < t + 600")
    case True
    then show ?thesis using before by simp
  next
    case False
    then have "t + 600 \<le> T'" by simp
    then show ?thesis
      using found zero by (cases "select d MOCK_MEMORY = []") simp_all
  qed
  show ?thesis
    using final every by (simp add: offline_notice_def)
qed

text \<open>
  Scenario C as an instance of the amended claim C5: the directive is accepted at
  1000, the scan selects nothing, and the notice is the last message from 2100 on;
  at 1600 the pipeline has added no assistant message.
\<close>

theorem offline_fallback_witness:
  "\<not> isProcessing (initial 0) \<and> timers (initial 0) = [] \<and> \<not> crashed (initial 0)
   \<and> \<not> trim_empty ''status report'' \<and> \<not> usable None
   \<and> (1000 :: nat) + (if select ''status report'' MOCK_MEMORY = [] then 1100 else 1500) \<le> 2100
   \<and> history (advance None 2100 (handleSend 1000 ''status report'' (initial 0)))
       = history (initial 0) @
         [user_message ''1000'' ''status report'' 1000,
          \<lparr> m_id = ''err'', m_role = Assistant,
            m_content = ''SYSTEM_ALERT: Neural Link Offline (Missing API Key).'',
            m_timestamp = 2100, m_isStreaming = None \<rparr>]
   \<and> generating (advance None 1600 (handleSend 1000 ''status report'' (initial 0))) = None
   \<and> filter (\<lambda>m. m_role m = Assistant)
        (history (advance None 1600 (handleSend 1000 ''status report'' (initial 0))))
       = history (initial 0)"
  using offline_fallback [where s = "initial 0" and d = "''status report''"
      and api_key = None and t = 1000 and T = 2100 and T' = 1600]
  by (simp add: scenario_evals initial_def offline_notice_def drop_system_def)

text \<open>
  Claim C6 (pipeline serialization): a directive submitted while another pipeline
  is active is rejected, and the history mutations of two pipelines never
  interleave. Without a key, \<^verbatim>\<open>isProcessing\<close> is cleared when the 500 ms timer of the
  offline notice is set, not when it fires. The first directive is submitted at
  1000 and its notice is due at 2100; the second, submitted at 1700, is accepted;
  its user message and scanning notice enter the history before the offline notice
  of the first, which lands between them and the second pipeline's own notice.
\<close>

theorem second_directive_interleaves:
  "map m_id (history (run None (initial 0)
      [(1000, Submit ''status report''), (1700, Submit ''hello'')]))
     = [''init'', ''1000'', ''1700'', ''sys-1700'']
   \<and> map m_id (history (advance None 5000 (run None (initial 0)
      [(1000, Submit ''status report''), (1700, Submit ''hello'')])))
     = [''init'', ''1000'', ''1700'', ''err'', ''err'']
   \<and> map m_timestamp (history (advance None 5000 (run None (initial 0)
      [(1000, Submit ''status report''), (1700, Submit ''hello'')])))
     = [0, 1000, 1700, 2100, 2800]"
  by (simp add: engine_defs scenario_evals)

text \<open>
  Claim C7 (context assembly format): for every ordered sequence of fragments the
  context that enters the prompt is the one the specification describes: one block
  \<open>[REF: <id> | <PROVENANCE>]: <body>\<close> per fragment with the provenance in capitals,
  the blocks joined by a blank line in the order received, and the sentinel
  \<open>No archival data found.\<close> for the empty sequence. The prompt sent to the
  generation client holds that context between the persona line and the directives.
\<close>

theorem context_assembly_format:
  "prompt_context fragments = spec_context fragments
   \<and> prompt fragments userMsg =
       ''You are E.A./SYSTEM. A hyper-efficient executive operating system.\<newline>        Context: ''
       @ spec_context fragments
       @ ''\<newline>        \<newline>        Directives:\<newline>        - Output strictly in formatted text.\<newline>        - Be concise, authoritative, and data-driven.\<newline>        - If referencing context, use [REF] markers.\<newline>        ''
       @ ''\<newline>\<newline>Query: '' @ userMsg"
proof -
  have "prompt_context fragments = spec_context fragments"
  proof (cases fragments)
    case Nil
    then show ?thesis by (simp add: prompt_context_def assemble_def)
  next
    case (Cons c cs)
    then show ?thesis
      using spec_context_Cons_nonempty [of c cs]
      by (simp add: prompt_context_def assemble_Cons Let_def)
  qed
  then show ?thesis by (simp add: prompt_def systemPrompt_def)
qed

text \<open>
  Claim C8 (message identifier uniqueness): every message of the history has an
  identifier of its own, also after repeated offline and error outcomes. The offline
  notice and the error notice both carry the constant identifier \<open>err\<close>: two
  directives without a key, the second long after the first has ended, leave two
  messages with that identifier.
\<close>

theorem err_identifier_repeats:
  "map m_id (history (advance None 5000 (run None (initial 0)
      [(1000, Submit ''status report''), (3000, Submit ''hello'')])))
     = [''init'', ''1000'', ''err'', ''3000'', ''err'']
   \<and> \<not> distinct (map m_id (history (advance None 5000 (run None (initial 0)
      [(1000, Submit ''status report''), (3000, Submit ''hello'')]))))"
  by (simp add: engine_defs scenario_evals)

text \<open>
  Claim C9 (assembly idempotence and determinism): the assembled context is fixed
  by the identifier, provenance and body of each fragment, in order. Two runs on
  sequences that agree there give the same text, and two pipelines, whatever their
  engine states, clocks and keys, send the same prompt for the same directive.
\<close>

theorem assembly_deterministic:
  assumes "map (\<lambda>c. (c_id c, c_source c, c_content c)) fragments
             = map (\<lambda>c. (c_id c, c_source c, c_content c)) fragments'"
    and "usable api_key" and "usable api_key'"
  shows "assemble fragments = assemble fragments'
       \<and> map_option sent_prompt (generating (stream_response api_key now userMsg fragments s))
           = map_option sent_prompt (generating (stream_response api_key' now' userMsg fragments' s'))"
proof -
  let ?proj = "\<lambda>c. (c_id c, c_source c, c_content c)"
  let ?f = "\<lambda>(i, src, body). ''[REF: '' @ i @ '' | '' @ toUpperCase (source_str src) @ '']: '' @ body"
  have r: "map render cs = map ?f (map ?proj cs)" for cs
    by (simp add: render_def)
  have "map render fragments = map ?f (map ?proj fragments)"
    by (rule r)
  also have "\<dots> = map ?f (map ?proj fragments')"
    by (simp only: assms(1))
  also have "\<dots> = map render fragments'"
    by (rule r [symmetric])
  finally have "assemble fragments = assemble fragments'"
    by (simp add: assemble_def)
  then show ?thesis
    using assms(2,3)
    by (simp add: stream_response_def prompt_def systemPrompt_def prompt_context_def Let_def)
qed

text \<open>
  An instance of claim C9: the fragments \<open>chk_1\<close>, \<open>chk_3\<close> assembled in a fresh
  engine at 2000 and, with their tags removed, in an engine mounted later, at 9000.
\<close>

theorem assembly_deterministic_witness:
  "map (\<lambda>c. (c_id c, c_source c, c_content c)) [chk_1, chk_3]
     = map (\<lambda>c. (c_id c, c_source c, c_content c)) [chk_1\<lparr> c_tags := [] \<rparr>, chk_3\<lparr> c_tags := [] \<rparr>]
   \<and> usable (Some ''k'') \<and> usable (Some ''another key'')
   \<and> assemble [chk_1, chk_3] = assemble [chk_1\<lparr> c_tags := [] \<rparr>, chk_3\<lparr> c_tags := [] \<rparr>]
   \<and> map_option sent_prompt (generating
        (stream_response (Some ''k'') 2000 ''status report'' [chk_1, chk_3] (initial 0)))
       = map_option sent_prompt (generating
        (stream_response (Some ''another key'') 9000 ''status report''
           [chk_1\<lparr> c_tags := [] \<rparr>, chk_3\<lparr> c_tags := [] \<rparr>] (initial 7000)))"
  using assembly_deterministic [where fragments = "[chk_1, chk_3]"
      and fragments' = "[chk_1\<lparr> c_tags := [] \<rparr>, chk_3\<lparr> c_tags := [] \<rparr>]"
      and api_key = "Some ''k''" and api_key' = "Some ''another key''"
      and now = 2000 and now' = 9000 and userMsg = "''status report''"
      and s = "initial 0" and s' = "initial 7000"]
  by simp

text \<open>
  Claim C10 (zero fragments clear every system message): the update of the branch
  without fragments leaves no system-role message anywhere in the history, keeps
  every other message, unchanged and in the same order, and is the only change that
  segment makes to the earlier history (with a usable key the streaming message
  is appended behind it).
\<close>

theorem zero_scan_drops_every_system_message:
  "System \<notin> m_role ` set (drop_system prev)
   \<and> filter (\<lambda>m. m_role m \<noteq> System) (drop_system prev) = filter (\<lambda>m. m_role m \<noteq> System) prev
   \<and> subseq (drop_system prev) prev
   \<and> history (resume api_key now (AfterScanDelay userMsg []) s)
       = drop_system (history s)
         @ (if usable api_key then [streaming_message (''ai-'' @ toString now) now] else [])"
  by (auto simp add: drop_system_def stream_response_def Let_def)

text \<open>
  An instance of claim C10 with two notices: the first directive selected a
  fragment, so its notice stayed; the second selects none, and when its delay ends
  both notices go, the first directive's as well as its own.
\<close>

theorem zero_scan_drops_every_system_message_witness:
  "map m_id (history (run (Some ''k'') (initial 0)
      [(1000, Submit ''what's our architecture plan''), (2100, Increment ''Sys''),
       (2200, Increment ''tem optimal.''), (2300, Complete),
       (3000, Submit ''status report'')]))
     = [''init'', ''1000'', ''sys-1000'', ''ai-2000'', ''err'', ''3000'', ''sys-3000'']
   \<and> map m_id (drop_system (history (run (Some ''k'') (initial 0)
      [(1000, Submit ''what's our architecture plan''), (2100, Increment ''Sys''),
       (2200, Increment ''tem optimal.''), (2300, Complete),
       (3000, Submit ''status report'')])))
     = [''init'', ''1000'', ''ai-2000'', ''err'', ''3000'']
   \<and> System \<notin> m_role ` set (drop_system (history (run (Some ''k'') (initial 0)
      [(1000, Submit ''what's our architecture plan''), (2100, Increment ''Sys''),
       (2200, Increment ''tem optimal.''), (2300, Complete),
       (3000, Submit ''status report'')])))"
  using zero_scan_drops_every_system_message [where prev = "history (run (Some ''k'') (initial 0)
      [(1000, Submit ''what's our architecture plan''), (2100, Increment ''Sys''),
       (2200, Increment ''tem optimal.''), (2300, Complete),
       (3000, Submit ''status report'')])"]
  by (simp add: engine_defs scenario_evals)

end
